theory Spec2Isabelle
  imports Main "HOL-Library.Word"
begin

unbundle bit_operations_syntax

section \<open>ELF image inspection: the runtime's section discovery\<close>

text \<open>
  A shallow embedding of \<^verbatim>\<open>stdlib/public/runtime/ImageInspectionELF.cpp\<close>.
  The file talks to the dynamic loader (\<^verbatim>\<open>dlopen\<close>, \<^verbatim>\<open>dlsym\<close>, \<^verbatim>\<open>dlclose\<close>,
  \<^verbatim>\<open>dladdr\<close>, \<^verbatim>\<open>dl_iterate_phdr\<close>), reads process memory and calls two
  accumulation callbacks of the runtime. The loader and the memory are a parameter of
  the model (a record of functions); every call into them and every callback is
  recorded, in program order, in the list of events a function returns besides its
  result. \<^verbatim>\<open>fatalError\<close> does not return: it is the result \<open>Fatal\<close>.
\<close>

subsection \<open>Data\<close>

text \<open>Addresses are held in 64-bit words; the null pointer is 0. On a build with 32-bit
  pointers they are the values below \<open>2 ^ 32\<close>.\<close>

type_synonym addr = "64 word"

text \<open>A \<^verbatim>\<open>const char *\<close> that may be null: \<open>None\<close> is \<^verbatim>\<open>nullptr\<close>.\<close>

type_synonym cstring = "string option"

text \<open>The non-null value \<^verbatim>\<open>dlopen\<close> returns for an image.\<close>

type_synonym handle = nat

text \<open>\<^verbatim>\<open>struct SectionInfo { uint64_t size; const char *data; }\<close>\<close>

record SectionInfo =
  size' :: "64 word"
  data :: addr

text \<open>\<^verbatim>\<open>Dl_info\<close> of \<^verbatim>\<open>dlfcn.h\<close>.\<close>

record Dl_info =
  dli_fname :: cstring
  dli_fbase :: addr
  dli_sname :: cstring
  dli_saddr :: addr

text \<open>\<^verbatim>\<open>struct SymbolInfo\<close>, the record \<^verbatim>\<open>lookupSymbol\<close> fills in.\<close>

record SymbolInfo =
  fileName :: cstring
  baseAddress :: addr
  symbolName :: cstring
  symbolAddress :: addr

text \<open>\<^verbatim>\<open>struct dl_phdr_info\<close>: only the name is read.\<close>

record dl_phdr_info =
  dlpi_name :: cstring

text \<open>The two accumulation callbacks a registry can hold in \<^verbatim>\<open>addBlock\<close>.\<close>

datatype block_callback =
  addImageProtocolConformanceBlockCallback
| addImageTypeMetadataRecordBlockCallback

text \<open>\<^verbatim>\<open>struct InspectArgs\<close>, with the source's field \<^verbatim>\<open>symbolName\<close> (the record
  \<open>SymbolInfo\<close> has a field of that name too).\<close>

record InspectArgs =
  args_symbolName :: string
  addBlock :: block_callback
  didInitializeLookup :: bool

text \<open>The two static registries of the file.\<close>

record globals =
  ProtocolConformanceArgs :: InspectArgs
  TypeMetadataRecordArgs :: InspectArgs

subsection \<open>The platform\<close>

text \<open>Why a \<^verbatim>\<open>dlopen\<close> with \<^verbatim>\<open>RTLD_NOLOAD\<close> gave no handle. The C interface
  returns a null handle either way; the reason is visible only in the text of
  \<^verbatim>\<open>dlerror\<close>.\<close>

datatype dl_failure = NotResident | PlatformError

datatype dlopen_result =
  DlOpened handle
| DlFailed dl_failure string  \<comment> \<open>the reason and the text \<^verbatim>\<open>dlerror()\<close> then returns\<close>

datatype byte_order = LittleEndian | BigEndian

text \<open>The width of pointers and of \<^verbatim>\<open>uintptr_t\<close>: 32 bits (ILP32) or 64 bits (LP64).\<close>

datatype data_model = ILP32 | LP64

record platform =
  ANDROID :: bool  \<comment> \<open>whether \<^verbatim>\<open>__ANDROID__\<close> is defined\<close>
  endianness :: byte_order
  data_model :: data_model
  memory :: "addr \<Rightarrow> 8 word"
  dlopen :: "cstring \<Rightarrow> dlopen_result"  \<comment> \<open>with \<^verbatim>\<open>RTLD_LAZY | RTLD_NOLOAD\<close>\<close>
  dlsym :: "handle \<Rightarrow> string \<Rightarrow> addr"  \<comment> \<open>0 when the symbol is not found\<close>
  dladdr :: "addr \<Rightarrow> Dl_info option"  \<comment> \<open>\<open>None\<close> when \<^verbatim>\<open>dladdr\<close> returns 0\<close>
  loaded_images :: "dl_phdr_info list"  \<comment> \<open>what \<^verbatim>\<open>dl_iterate_phdr\<close> walks\<close>

subsection \<open>Effects and results\<close>

datatype event =
  EvDlopen cstring
| EvDlsym handle string
| EvDlclose handle
| EvDladdr addr
| EvAddBlock block_callback addr "64 word"  \<comment> \<open>the arguments \<^verbatim>\<open>start\<close> and \<^verbatim>\<open>size\<close>\<close>

text \<open>\<^verbatim>\<open>fatalError(0, "dlopen() failed on `%s': %s", imageName, dlerror())\<close>: the two
  arguments of the format.\<close>

datatype diagnostic = DlopenFailed cstring string

datatype 'a result = Returned 'a | Fatal diagnostic

type_synonym 'a run = "event list \<times> 'a result"

definition return_run :: "'a \<Rightarrow> 'a run" where
  "return_run x = ([], Returned x)"

definition bind_run :: "'a run \<Rightarrow> ('a \<Rightarrow> 'b run) \<Rightarrow> 'b run" where
  "bind_run m f =
     (case m of
        (evs, Fatal d) \<Rightarrow> (evs, Fatal d)
      | (evs, Returned x) \<Rightarrow> (case f x of (evs', r) \<Rightarrow> (evs @ evs', r)))"

definition emit :: "event \<Rightarrow> unit run" where
  "emit e = ([e], Returned ())"

subsection \<open>Reading the length prefix\<close>

text \<open>The value of a \<^verbatim>\<open>uint64_t\<close> whose eight bytes, in address order, are \<open>bs\<close>.\<close>

definition u64_of_bytes :: "byte_order \<Rightarrow> 8 word list \<Rightarrow> 64 word" where
  "u64_of_bytes order bs =
     (case order of
        LittleEndian \<Rightarrow> foldr (\<lambda>b acc. ucast b OR push_bit 8 acc) bs 0
      | BigEndian \<Rightarrow> foldl (\<lambda>acc b. push_bit 8 acc OR ucast b) 0 bs)"

text \<open>\<^verbatim>\<open>memcpy(&sectionInfo.size, section, sizeof(uint64_t))\<close>\<close>

definition memcpy_u64 :: "platform \<Rightarrow> addr \<Rightarrow> 64 word" where
  "memcpy_u64 p a =
     u64_of_bytes (endianness p)
       [memory p a, memory p (a + 1), memory p (a + 2), memory p (a + 3),
        memory p (a + 4), memory p (a + 5), memory p (a + 6), memory p (a + 7)]"

text \<open>The callbacks take the size as \<^verbatim>\<open>uintptr_t\<close>
  (\<^verbatim>\<open>void (*addBlock)(const void *start, uintptr_t size)\<close>) and are called with
  \<^verbatim>\<open>block.size\<close>, a \<^verbatim>\<open>uint64_t\<close>: the conversion at the call keeps the value modulo
  \<open>2 ^ 32\<close> where \<^verbatim>\<open>uintptr_t\<close> has 32 bits.\<close>

definition to_uintptr :: "platform \<Rightarrow> 64 word \<Rightarrow> 64 word" where
  "to_uintptr p x = (case data_model p of LP64 \<Rightarrow> x | ILP32 \<Rightarrow> take_bit 32 x)"

subsection \<open>The registries\<close>

definition ProtocolConformancesSymbol :: string where
  "ProtocolConformancesSymbol = ''.swift2_protocol_conformances_start''"

definition TypeMetadataRecordsSymbol :: string where
  "TypeMetadataRecordsSymbol = ''.swift2_type_metadata_start''"

definition initial_globals :: globals where
  "initial_globals =
     \<lparr>ProtocolConformanceArgs =
        \<lparr>args_symbolName = ProtocolConformancesSymbol,
         addBlock = addImageProtocolConformanceBlockCallback,
         didInitializeLookup = False\<rparr>,
      TypeMetadataRecordArgs =
        \<lparr>args_symbolName = TypeMetadataRecordsSymbol,
         addBlock = addImageTypeMetadataRecordBlockCallback,
         didInitializeLookup = False\<rparr>\<rparr>"

subsection \<open>The functions of the file\<close>

definition getSectionInfo :: "platform \<Rightarrow> cstring \<Rightarrow> string \<Rightarrow> SectionInfo run" where
  "getSectionInfo p imageName sectionName =
     (let sectionInfo = \<lparr>size' = 0, data = 0\<rparr> in
      case dlopen p imageName of
        DlFailed why text \<Rightarrow>
          if ANDROID p then ([EvDlopen imageName], Returned sectionInfo)
          else ([EvDlopen imageName], Fatal (DlopenFailed imageName text))
      | DlOpened handle \<Rightarrow>
          let symbol = dlsym p handle sectionName;
              sectionInfo' =
                (if symbol \<noteq> 0
                 then sectionInfo\<lparr>size' := memcpy_u64 p symbol, data := symbol + 8\<rparr>
                 else sectionInfo)
          in ([EvDlopen imageName, EvDlsym handle sectionName, EvDlclose handle],
              Returned sectionInfo'))"

text \<open>The callback mutates the registry its \<^verbatim>\<open>data\<close> argument points to: it takes the
  registry and returns it with the return code. The \<^verbatim>\<open>size\<close> argument is not read.\<close>

definition iteratePHDRCallback ::
  "platform \<Rightarrow> dl_phdr_info \<Rightarrow> InspectArgs \<Rightarrow> (int \<times> InspectArgs) run" where
  "iteratePHDRCallback p info inspectArgs =
     (let fname = dlpi_name info;
          inspectArgs' = inspectArgs\<lparr>didInitializeLookup := True\<rparr>
      in if fname = None \<or> fname = Some []
         then return_run (0, inspectArgs')
         else bind_run (getSectionInfo p fname (args_symbolName inspectArgs'))
                (\<lambda>block.
                   bind_run
                     (if size' block > 0
                      then emit (EvAddBlock (addBlock inspectArgs') (data block)
                                  (to_uintptr p (size' block)))
                      else return_run ())
                     (\<lambda>_. return_run (0, inspectArgs'))))"

text \<open>The registry is \<^verbatim>\<open>const\<close> here. \<open>fname\<close> stays null for a null \<open>addr\<close>, which
  \<open>getSectionInfo\<close> takes as the main executable.\<close>

definition addBlockInImage :: "platform \<Rightarrow> InspectArgs \<Rightarrow> addr \<Rightarrow> unit run" where
  "addBlockInImage p inspectArgs addr =
     (let rest = (\<lambda>fname.
            bind_run (getSectionInfo p fname (args_symbolName inspectArgs))
              (\<lambda>block.
                 if size' block > 0
                 then emit (EvAddBlock (addBlock inspectArgs) (data block)
                             (to_uintptr p (size' block)))
                 else return_run ()))
      in if addr \<noteq> 0
         then bind_run (emit (EvDladdr addr))
                (\<lambda>_. case dladdr p addr of
                        None \<Rightarrow> return_run ()
                      | Some info \<Rightarrow>
                          if dli_fname info = None then return_run ()
                          else rest (dli_fname info))
         else rest None)"

text \<open>\<^verbatim>\<open>dl_iterate_phdr\<close>: the callback once per loaded image, in the loader's order,
  until it returns a value other than 0; that value, or 0, is returned.\<close>

fun dl_iterate_phdr ::
  "(dl_phdr_info \<Rightarrow> 'd \<Rightarrow> (int \<times> 'd) run) \<Rightarrow> dl_phdr_info list \<Rightarrow> 'd \<Rightarrow> (int \<times> 'd) run" where
  "dl_iterate_phdr callback [] d = return_run (0, d)"
| "dl_iterate_phdr callback (info # rest) d =
     (case callback info d of
        (evs, Fatal x) \<Rightarrow> (evs, Fatal x)
      | (evs, Returned (rc, d')) \<Rightarrow>
          if rc \<noteq> 0 then (evs, Returned (rc, d'))
          else (case dl_iterate_phdr callback rest d' of (evs', r) \<Rightarrow> (evs @ evs', r)))"

definition initializeSectionLookup :: "platform \<Rightarrow> InspectArgs \<Rightarrow> InspectArgs run" where
  "initializeSectionLookup p inspectArgs =
     bind_run (addBlockInImage p inspectArgs 0)
       (\<lambda>_. bind_run (dl_iterate_phdr (iteratePHDRCallback p) (loaded_images p) inspectArgs)
          (\<lambda>(rc, inspectArgs'). return_run inspectArgs'))"

definition initializeProtocolConformanceLookup :: "platform \<Rightarrow> globals \<Rightarrow> globals run" where
  "initializeProtocolConformanceLookup p g =
     bind_run (initializeSectionLookup p (ProtocolConformanceArgs g))
       (\<lambda>a. return_run (g\<lparr>ProtocolConformanceArgs := a\<rparr>))"

definition initializeTypeMetadataRecordLookup :: "platform \<Rightarrow> globals \<Rightarrow> globals run" where
  "initializeTypeMetadataRecordLookup p g =
     bind_run (initializeSectionLookup p (TypeMetadataRecordArgs g))
       (\<lambda>a. return_run (g\<lparr>TypeMetadataRecordArgs := a\<rparr>))"

definition swift_addNewDSOImage :: "platform \<Rightarrow> globals \<Rightarrow> addr \<Rightarrow> unit run" where
  "swift_addNewDSOImage p g addr =
     bind_run
       (if didInitializeLookup (ProtocolConformanceArgs g)
        then addBlockInImage p (ProtocolConformanceArgs g) addr
        else return_run ())
       (\<lambda>_. if didInitializeLookup (TypeMetadataRecordArgs g)
             then addBlockInImage p (TypeMetadataRecordArgs g) addr
             else return_run ())"

text \<open>The out-parameter \<^verbatim>\<open>info\<close> is passed in and returned with the return code.\<close>

definition lookupSymbol :: "platform \<Rightarrow> addr \<Rightarrow> SymbolInfo \<Rightarrow> (int \<times> SymbolInfo) run" where
  "lookupSymbol p address info =
     (case dladdr p address of
        None \<Rightarrow> ([EvDladdr address], Returned (0, info))
      | Some dlinfo \<Rightarrow>
          ([EvDladdr address],
           Returned (1, info\<lparr>fileName := dli_fname dlinfo,
                            baseAddress := dli_fbase dlinfo,
                            symbolName := dli_sname dlinfo,
                            symbolAddress := dli_saddr dlinfo\<rparr>)))"

subsection \<open>The entry points as operations on the registries\<close>

text \<open>What the rest of the runtime and the loader can do to the two registries. Images
  come and go between two operations, so each runs against the platform of its moment.\<close>

datatype operation =
  InitializeProtocolConformanceLookup
| InitializeTypeMetadataRecordLookup
| AddNewDSOImage addr

definition perform :: "platform \<Rightarrow> operation \<Rightarrow> globals \<Rightarrow> globals run" where
  "perform p op g =
     (case op of
        InitializeProtocolConformanceLookup \<Rightarrow> initializeProtocolConformanceLookup p g
      | InitializeTypeMetadataRecordLookup \<Rightarrow> initializeTypeMetadataRecordLookup p g
      | AddNewDSOImage addr \<Rightarrow> bind_run (swift_addNewDSOImage p g addr) (\<lambda>_. return_run g))"

fun perform_all :: "(platform \<times> operation) list \<Rightarrow> globals \<Rightarrow> globals run" where
  "perform_all [] g = return_run g"
| "perform_all ((p, op) # ops) g =
     (case perform p op g of
        (evs, Fatal d) \<Rightarrow> (evs, Fatal d)
      | (evs, Returned g') \<Rightarrow> (case perform_all ops g' of (evs', r) \<Rightarrow> (evs @ evs', r)))"

text \<open>The fields of a registry that no function of the file assigns.\<close>

definition well_formed :: "globals \<Rightarrow> bool" where
  "well_formed g \<longleftrightarrow>
     args_symbolName (ProtocolConformanceArgs g) = ProtocolConformancesSymbol \<and>
     addBlock (ProtocolConformanceArgs g) = addImageProtocolConformanceBlockCallback \<and>
     args_symbolName (TypeMetadataRecordArgs g) = TypeMetadataRecordsSymbol \<and>
     addBlock (TypeMetadataRecordArgs g) = addImageTypeMetadataRecordBlockCallback"

text \<open>What a callback carries for the section \<open>sectionName\<close> of the image \<open>fname\<close>: the
  handle of the image opens, \<^verbatim>\<open>dlsym\<close> finds the symbol, the length prefix at the
  symbol is greater than zero, \<open>d\<close> is the address after the prefix and \<open>sz\<close> the prefix
  as \<^verbatim>\<open>uintptr_t\<close>.\<close>

definition reported_section :: "platform \<Rightarrow> cstring \<Rightarrow> string \<Rightarrow> addr \<Rightarrow> 64 word \<Rightarrow> bool" where
  "reported_section p fname sectionName d sz =
     (case dlopen p fname of
        DlFailed why text \<Rightarrow> False
      | DlOpened h \<Rightarrow>
          dlsym p h sectionName \<noteq> 0 \<and>
          0 < memcpy_u64 p (dlsym p h sectionName) \<and>
          d = dlsym p h sectionName + 8 \<and>
          sz = to_uintptr p (memcpy_u64 p (dlsym p h sectionName)))"

subsection \<open>A small process to evaluate on\<close>

text \<open>A main executable with an 8-byte conformance section at \<open>0x1000\<close>, a library
  \<^verbatim>\<open>libFoo.so\<close> with a 16-byte one at \<open>0x2000\<close>, a library \<^verbatim>\<open>libEmpty.so\<close> whose
  section has length 0 at \<open>0x3000\<close>, a library \<^verbatim>\<open>libHuge.so\<close> whose section at
  \<open>0x4000\<close> has the length \<open>2 ^ 32\<close>, and no type metadata anywhere. The address
  \<open>0x6000\<close> lies in an image \<^verbatim>\<open>libBad.so\<close> that \<^verbatim>\<open>dlopen\<close> cannot open.\<close>

definition demo_memory :: "addr \<Rightarrow> 8 word" where
  "demo_memory a =
     (if a = 0x1000 then 8 else if a = 0x2000 then 16 else if a = 0x4004 then 1 else 0)"

definition demo_dlopen :: "cstring \<Rightarrow> dlopen_result" where
  "demo_dlopen imageName =
     (if imageName = None then DlOpened 11
      else if imageName = Some ''libFoo.so'' then DlOpened 12
      else if imageName = Some ''libEmpty.so'' then DlOpened 13
      else if imageName = Some ''libHuge.so'' then DlOpened 14
      else if imageName = Some ''libGone.so'' then DlFailed NotResident ''libGone.so: not loaded''
      else DlFailed PlatformError ''invalid mode'')"

definition demo_dlsym :: "handle \<Rightarrow> string \<Rightarrow> addr" where
  "demo_dlsym h name =
     (if name = ProtocolConformancesSymbol
      then (if h = 11 then 0x1000 else if h = 12 then 0x2000 else if h = 13 then 0x3000
            else if h = 14 then 0x4000 else 0)
      else 0)"

definition demo_dladdr :: "addr \<Rightarrow> Dl_info option" where
  "demo_dladdr a =
     (if a = 0x2010
      then Some \<lparr>dli_fname = Some ''libFoo.so'', dli_fbase = 0x2000,
                 dli_sname = Some ''foo'', dli_saddr = 0x200C\<rparr>
      else if a = 0x6000
      then Some \<lparr>dli_fname = Some ''libBad.so'', dli_fbase = 0x6000,
                 dli_sname = None, dli_saddr = 0\<rparr>
      else None)"

definition demo :: platform where
  "demo =
     \<lparr>ANDROID = False, endianness = LittleEndian, data_model = LP64, memory = demo_memory,
      dlopen = demo_dlopen, dlsym = demo_dlsym, dladdr = demo_dladdr,
      loaded_images =
        [\<lparr>dlpi_name = Some []\<rparr>, \<lparr>dlpi_name = Some ''libFoo.so''\<rparr>,
         \<lparr>dlpi_name = None\<rparr>, \<lparr>dlpi_name = Some ''libEmpty.so''\<rparr>]\<rparr>"

definition demo_android :: platform where
  "demo_android = demo\<lparr>ANDROID := True\<rparr>"

text \<open>The same process on a build with 32-bit pointers.\<close>

definition demo_ilp32 :: platform where
  "demo_ilp32 = demo\<lparr>data_model := ILP32\<rparr>"

text \<open>Both registries after their initialization.\<close>

definition ready_globals :: globals where
  "ready_globals =
     \<lparr>ProtocolConformanceArgs =
        (ProtocolConformanceArgs initial_globals)\<lparr>didInitializeLookup := True\<rparr>,
      TypeMetadataRecordArgs =
        (TypeMetadataRecordArgs initial_globals)\<lparr>didInitializeLookup := True\<rparr>\<rparr>"

text \<open>The conformance registry after its initialization, the other one before.\<close>

definition conformances_ready :: globals where
  "conformances_ready =
     initial_globals\<lparr>ProtocolConformanceArgs := ProtocolConformanceArgs ready_globals\<rparr>"


section \<open>Properties\<close>

subsection \<open>Sequencing\<close>

lemma bind_run_Returned [simp]:
  "bind_run (evs, Returned x) f = (evs @ fst (f x), snd (f x))"
  by (simp add: bind_run_def split: prod.splits)

lemma bind_run_Fatal [simp]: "bind_run (evs, Fatal d) f = (evs, Fatal d)"
  by (simp add: bind_run_def)

lemma bind_run_return [simp]: "bind_run (return_run x) f = f x"
  by (simp add: return_run_def)

lemma bind_run_unit [simp]: "bind_run m (\<lambda>_. return_run ()) = m"
  by (cases m; cases "snd m") (auto simp: return_run_def)

lemma bind_run_return_run [simp]: "bind_run m return_run = m"
  by (cases m; cases "snd m") (auto simp: return_run_def)

lemma fst_bind_run:
  "fst (bind_run m f) = fst m @ (case snd m of Returned x \<Rightarrow> fst (f x) | Fatal d \<Rightarrow> [])"
  by (cases m; cases "snd m") auto

lemma snd_bind_run:
  "snd (bind_run m f) = (case snd m of Returned x \<Rightarrow> snd (f x) | Fatal d \<Rightarrow> Fatal d)"
  by (cases m; cases "snd m") auto

subsection \<open>Evaluating the small process\<close>

lemma demo_fields [simp]:
  "ANDROID demo = False" "endianness demo = LittleEndian" "memory demo = demo_memory"
  "dlopen demo = demo_dlopen" "dlsym demo = demo_dlsym" "dladdr demo = demo_dladdr"
  "data_model demo = LP64"
  by (simp_all add: demo_def)

lemma demo_to_uintptr [simp]: "to_uintptr demo x = x"
  by (simp add: to_uintptr_def)

lemma demo_android_fields [simp]:
  "ANDROID demo_android = True" "endianness demo_android = LittleEndian"
  "memory demo_android = demo_memory" "dlopen demo_android = demo_dlopen"
  "dlsym demo_android = demo_dlsym" "dladdr demo_android = demo_dladdr"
  by (simp_all add: demo_android_def demo_def)

lemma demo_ilp32_fields [simp]:
  "ANDROID demo_ilp32 = False" "endianness demo_ilp32 = LittleEndian"
  "memory demo_ilp32 = demo_memory" "dlopen demo_ilp32 = demo_dlopen"
  "dlsym demo_ilp32 = demo_dlsym" "dladdr demo_ilp32 = demo_dladdr"
  "data_model demo_ilp32 = ILP32"
  by (simp_all add: demo_ilp32_def demo_def)

lemma symbols_differ [simp]:
  "TypeMetadataRecordsSymbol \<noteq> ProtocolConformancesSymbol"
  "ProtocolConformancesSymbol \<noteq> TypeMetadataRecordsSymbol"
  by (simp_all add: TypeMetadataRecordsSymbol_def ProtocolConformancesSymbol_def)

lemma demo_prefix_main: "memcpy_u64 demo 0x1000 = 8"
  by (simp add: memcpy_u64_def u64_of_bytes_def demo_memory_def)

lemma demo_prefix_libFoo: "memcpy_u64 demo 0x2000 = 16"
  by (simp add: memcpy_u64_def u64_of_bytes_def demo_memory_def)

lemma demo_prefix_libEmpty: "memcpy_u64 demo 0x3000 = 0"
  by (simp add: memcpy_u64_def u64_of_bytes_def demo_memory_def)

subsection \<open>The length prefix, byte by byte\<close>

lemma u64_of_bytes_LittleEndian_byte:
  assumes "i < 8"
  shows "ucast (drop_bit (8 * i) (u64_of_bytes LittleEndian [b0, b1, b2, b3, b4, b5, b6, b7])) =
           [b0, b1, b2, b3, b4, b5, b6, b7] ! i"
proof -
  from assms have "i \<in> {0, 1, 2, 3, 4, 5, 6, 7}"
    by auto
  then show ?thesis
    by (elim insertE emptyE)
      (simp_all add: u64_of_bytes_def,
        (rule bit_word_eqI, auto simp: bit_simps dest: bit_imp_le_length)+)
qed

lemma u64_of_bytes_BigEndian_byte:
  assumes "i < 8"
  shows "ucast (drop_bit (8 * i) (u64_of_bytes BigEndian [b0, b1, b2, b3, b4, b5, b6, b7])) =
           [b7, b6, b5, b4, b3, b2, b1, b0] ! i"
proof -
  from assms have "i \<in> {0, 1, 2, 3, 4, 5, 6, 7}"
    by auto
  then show ?thesis
    by (elim insertE emptyE)
      (simp_all add: u64_of_bytes_def,
        (rule bit_word_eqI, auto simp: bit_simps dest: bit_imp_le_length)+)
qed

text \<open>The byte at \<open>a + i\<close> is byte \<open>i\<close> of the value, counting from the least
  significant one on a little-endian platform and from the most significant one on a
  big-endian platform.\<close>

lemma memcpy_u64_bytes:
  assumes "i < 8"
  shows "ucast (drop_bit (8 * (case endianness p of LittleEndian \<Rightarrow> i | BigEndian \<Rightarrow> 7 - i))
                  (memcpy_u64 p a)) = memory p (a + of_nat i)"
proof -
  let ?m = "memory p"
  from assms have index: "i \<in> {0, 1, 2, 3, 4, 5, 6, 7}"
    by auto
  have up:
    "[?m a, ?m (a + 1), ?m (a + 2), ?m (a + 3), ?m (a + 4), ?m (a + 5), ?m (a + 6), ?m (a + 7)] ! i =
       ?m (a + of_nat i)"
    using index by (elim insertE emptyE) simp_all
  have down:
    "[?m (a + 7), ?m (a + 6), ?m (a + 5), ?m (a + 4), ?m (a + 3), ?m (a + 2), ?m (a + 1), ?m a] !
       (7 - i) = ?m (a + of_nat i)"
    using index by (elim insertE emptyE) simp_all
  show ?thesis
  proof (cases "endianness p")
    case LittleEndian
    with u64_of_bytes_LittleEndian_byte [OF assms] up show ?thesis
      by (simp add: memcpy_u64_def)
  next
    case BigEndian
    from assms have "7 - i < 8"
      by simp
    from u64_of_bytes_BigEndian_byte [OF this] down BigEndian show ?thesis
      by (simp add: memcpy_u64_def)
  qed
qed

subsection \<open>Locating a section\<close>

text \<open>
  C1. When the handle of the image opens and \<^verbatim>\<open>dlsym\<close> finds the section symbol,
  \<open>getSectionInfo\<close> returns the range whose size is the 64-bit value of the eight
  bytes at the symbol's address, in the platform's byte order, and whose data pointer
  is that address plus 8.
\<close>

theorem getSectionInfo_present:
  assumes "dlopen p imageName = DlOpened h"
    and "dlsym p h sectionName \<noteq> 0"
  shows "snd (getSectionInfo p imageName sectionName) =
           Returned \<lparr>size' = memcpy_u64 p (dlsym p h sectionName),
                     data = dlsym p h sectionName + 8\<rparr> \<and>
         (\<forall>i<8. ucast (drop_bit
                    (8 * (case endianness p of LittleEndian \<Rightarrow> i | BigEndian \<Rightarrow> 7 - i))
                    (memcpy_u64 p (dlsym p h sectionName))) =
                  memory p (dlsym p h sectionName + of_nat i))"
  using assms by (simp add: getSectionInfo_def Let_def memcpy_u64_bytes)

theorem getSectionInfo_present_witness:
  "dlopen demo (Some ''libFoo.so'') = DlOpened 12 \<and>
   dlsym demo 12 ProtocolConformancesSymbol \<noteq> 0 \<and>
   snd (getSectionInfo demo (Some ''libFoo.so'') ProtocolConformancesSymbol) =
     Returned \<lparr>size' = 16, data = 0x2008\<rparr>"
proof -
  have opened: "dlopen demo (Some ''libFoo.so'') = DlOpened 12"
    by (simp add: demo_dlopen_def)
  have found: "dlsym demo 12 ProtocolConformancesSymbol \<noteq> 0"
    by (simp add: demo_dlsym_def)
  have at: "demo_dlsym 12 ProtocolConformancesSymbol = 0x2000"
    by (simp add: demo_dlsym_def)
  show ?thesis
    using getSectionInfo_present [OF opened found] opened found
    by (simp add: at demo_prefix_libFoo)
qed

text \<open>
  C9. When \<^verbatim>\<open>dlopen\<close> gives a handle, \<open>getSectionInfo\<close> returns, and what it did
  to the loader is: open the image, look the symbol up on the handle, close that
  handle. The close is the last event, whether or not the symbol was found.
\<close>

theorem getSectionInfo_closes_handle:
  assumes "dlopen p imageName = DlOpened h"
  shows "fst (getSectionInfo p imageName sectionName) =
           [EvDlopen imageName, EvDlsym h sectionName, EvDlclose h] \<and>
         snd (getSectionInfo p imageName sectionName) =
           Returned (if dlsym p h sectionName \<noteq> 0
                     then \<lparr>size' = memcpy_u64 p (dlsym p h sectionName),
                           data = dlsym p h sectionName + 8\<rparr>
                     else \<lparr>size' = 0, data = 0\<rparr>)"
  using assms by (simp add: getSectionInfo_def Let_def)

theorem getSectionInfo_closes_handle_witness:
  "dlopen demo None = DlOpened 11 \<and>
   getSectionInfo demo None TypeMetadataRecordsSymbol =
     ([EvDlopen None, EvDlsym 11 TypeMetadataRecordsSymbol, EvDlclose 11],
      Returned \<lparr>size' = 0, data = 0\<rparr>)"
proof -
  have opened: "dlopen demo None = DlOpened 11"
    by (simp add: demo_dlopen_def)
  have absent: "demo_dlsym 11 TypeMetadataRecordsSymbol = 0"
    by (simp add: demo_dlsym_def)
  show ?thesis
    using getSectionInfo_closes_handle [OF opened, of TypeMetadataRecordsSymbol] opened
    by (simp add: absent prod_eq_iff)
qed

text \<open>
  C2, as the code has it. \<open>getSectionInfo\<close> never looks at why \<^verbatim>\<open>dlopen\<close> gave no
  handle. On a build with \<^verbatim>\<open>__ANDROID__\<close> every failure returns the empty range
  \<open>{0, nullptr}\<close>; on every other build every failure is fatal, with the image name
  and the text of \<^verbatim>\<open>dlerror\<close> in the diagnostic. Nothing but the \<^verbatim>\<open>dlopen\<close> call
  has happened by then.
\<close>

theorem getSectionInfo_dlopen_failure:
  assumes "dlopen p imageName = DlFailed why text"
  shows "getSectionInfo p imageName sectionName =
           ([EvDlopen imageName],
            if ANDROID p then Returned \<lparr>size' = 0, data = 0\<rparr>
            else Fatal (DlopenFailed imageName text))"
  using assms by (simp add: getSectionInfo_def)

theorem getSectionInfo_dlopen_failure_witness:
  "dlopen demo_android (Some ''libGone.so'') = DlFailed NotResident ''libGone.so: not loaded'' \<and>
   getSectionInfo demo_android (Some ''libGone.so'') ProtocolConformancesSymbol =
     ([EvDlopen (Some ''libGone.so'')], Returned \<lparr>size' = 0, data = 0\<rparr>)"
proof -
  have failed:
    "dlopen demo_android (Some ''libGone.so'') = DlFailed NotResident ''libGone.so: not loaded''"
    by (simp add: demo_dlopen_def)
  show ?thesis
    using getSectionInfo_dlopen_failure [OF failed, of ProtocolConformancesSymbol] failed
    by simp
qed

text \<open>
  C2 as stated fails in both directions: off Android an image that is merely not
  resident terminates the process, and on Android a failure for any other reason
  returns the empty range.
\<close>

theorem getSectionInfo_failure_reason_counterexample:
  "dlopen demo (Some ''libGone.so'') = DlFailed NotResident ''libGone.so: not loaded'' \<and>
   snd (getSectionInfo demo (Some ''libGone.so'') ProtocolConformancesSymbol) =
     Fatal (DlopenFailed (Some ''libGone.so'') ''libGone.so: not loaded'') \<and>
   dlopen demo_android (Some ''libBad.so'') = DlFailed PlatformError ''invalid mode'' \<and>
   snd (getSectionInfo demo_android (Some ''libBad.so'') ProtocolConformancesSymbol) =
     Returned \<lparr>size' = 0, data = 0\<rparr>"
  by (simp add: getSectionInfo_def demo_dlopen_def)

subsection \<open>Resolving an address\<close>



text \<open>
  C10. When \<^verbatim>\<open>dladdr\<close> fails, \<open>lookupSymbol\<close> returns 0 and the caller's record is
  as it was; the return code is 0 or 1, and a record that differs from the caller's
  comes only with the return code 1.
\<close>

theorem lookupSymbol_failure_leaves_info:
  "(dladdr p address = None \<longrightarrow>
      snd (lookupSymbol p address info) = Returned (0, info)) \<and>
   (\<forall>rc info'. snd (lookupSymbol p address info) = Returned (rc, info') \<longrightarrow>
      (rc = 0 \<or> rc = 1) \<and> (rc = 0 \<longleftrightarrow> dladdr p address = None) \<and>
      (info' \<noteq> info \<longrightarrow> rc = 1))"
  by (auto simp: lookupSymbol_def split: option.splits)

theorem lookupSymbol_failure_leaves_info_witness:
  "dladdr demo 0x5000 = None \<and>
   snd (lookupSymbol demo 0x5000
          \<lparr>fileName = Some ''stale'', baseAddress = 7, symbolName = None, symbolAddress = 9\<rparr>) =
     Returned (0, \<lparr>fileName = Some ''stale'', baseAddress = 7, symbolName = None,
                   symbolAddress = 9\<rparr>)"
proof -
  have unknown: "dladdr demo 0x5000 = None"
    by (simp add: demo_dladdr_def)
  show ?thesis
    using lookupSymbol_failure_leaves_info [of demo "0x5000"
        "\<lparr>fileName = Some ''stale'', baseAddress = 7, symbolName = None, symbolAddress = 9\<rparr>"]
      unknown
    by simp
qed

subsection \<open>What one image contributes\<close>

lemma getSectionInfo_opened:
  "dlopen p imageName = DlOpened h \<Longrightarrow>
   getSectionInfo p imageName sectionName =
     ([EvDlopen imageName, EvDlsym h sectionName, EvDlclose h],
      Returned (if dlsym p h sectionName \<noteq> 0
                then \<lparr>size' = memcpy_u64 p (dlsym p h sectionName),
                      data = dlsym p h sectionName + 8\<rparr>
                else \<lparr>size' = 0, data = 0\<rparr>))"
  by (simp add: getSectionInfo_def Let_def)

lemma getSectionInfo_failed:
  "dlopen p imageName = DlFailed why text \<Longrightarrow>
   getSectionInfo p imageName sectionName =
     ([EvDlopen imageName],
      if ANDROID p then Returned \<lparr>size' = 0, data = 0\<rparr>
      else Fatal (DlopenFailed imageName text))"
  by (simp add: getSectionInfo_def)

lemma getSectionInfo_no_AddBlock:
  "EvAddBlock cb d sz \<notin> set (fst (getSectionInfo p imageName sectionName))"
  by (cases "dlopen p imageName") (simp_all add: getSectionInfo_opened getSectionInfo_failed)

lemma getSectionInfo_no_Dladdr:
  "EvDladdr x \<notin> set (fst (getSectionInfo p imageName sectionName))"
  by (cases "dlopen p imageName") (simp_all add: getSectionInfo_opened getSectionInfo_failed)

lemma getSectionInfo_Dlopen_count:
  "count_list (fst (getSectionInfo p imageName sectionName)) (EvDlopen n) =
     (if n = imageName then 1 else 0)"
  by (cases "dlopen p imageName") (simp_all add: getSectionInfo_opened getSectionInfo_failed)

lemma iteratePHDRCallback_events:
  "fst (iteratePHDRCallback p info a) =
     (if dlpi_name info = None \<or> dlpi_name info = Some [] then []
      else fst (getSectionInfo p (dlpi_name info) (args_symbolName a)) @
        (case snd (getSectionInfo p (dlpi_name info) (args_symbolName a)) of
           Returned block \<Rightarrow>
             if size' block > 0
             then [EvAddBlock (addBlock a) (data block) (to_uintptr p (size' block))] else []
         | Fatal x \<Rightarrow> []))"
  by (simp add: iteratePHDRCallback_def Let_def fst_bind_run emit_def return_run_def
      split: result.splits)

lemma iteratePHDRCallback_result:
  "snd (iteratePHDRCallback p info a) =
     (if dlpi_name info = None \<or> dlpi_name info = Some []
      then Returned (0, a\<lparr>didInitializeLookup := True\<rparr>)
      else case snd (getSectionInfo p (dlpi_name info) (args_symbolName a)) of
             Returned block \<Rightarrow> Returned (0, a\<lparr>didInitializeLookup := True\<rparr>)
           | Fatal x \<Rightarrow> Fatal x)"
  by (simp add: iteratePHDRCallback_def Let_def snd_bind_run emit_def return_run_def
      split: result.splits)

lemma addBlockInImage_events:
  "fst (addBlockInImage p a addr) =
     (if addr = 0 then
        fst (getSectionInfo p None (args_symbolName a)) @
          (case snd (getSectionInfo p None (args_symbolName a)) of
             Returned block \<Rightarrow>
               if size' block > 0
               then [EvAddBlock (addBlock a) (data block) (to_uintptr p (size' block))]
               else []
           | Fatal x \<Rightarrow> [])
      else EvDladdr addr #
        (case dladdr p addr of
           None \<Rightarrow> []
         | Some info \<Rightarrow>
             if dli_fname info = None then []
             else fst (getSectionInfo p (dli_fname info) (args_symbolName a)) @
               (case snd (getSectionInfo p (dli_fname info) (args_symbolName a)) of
                  Returned block \<Rightarrow>
                    if size' block > 0
                    then [EvAddBlock (addBlock a) (data block) (to_uintptr p (size' block))]
                    else []
                | Fatal x \<Rightarrow> [])))"
  by (simp add: addBlockInImage_def Let_def fst_bind_run emit_def return_run_def
      split: result.splits option.splits)

lemma getSectionInfo_reported:
  "reported_section p fname sectionName d sz \<longleftrightarrow>
     (case snd (getSectionInfo p fname sectionName) of
        Returned block \<Rightarrow>
          0 < size' block \<and> d = data block \<and> sz = to_uintptr p (size' block)
      | Fatal x \<Rightarrow> False)"
  by (cases "dlopen p fname")
    (auto simp: getSectionInfo_opened getSectionInfo_failed reported_section_def)

lemma reported_section_LP64:
  "reported_section p fname sectionName d sz \<Longrightarrow> data_model p = LP64 \<Longrightarrow> 0 < sz"
  by (cases "dlopen p fname") (auto simp: reported_section_def to_uintptr_def)

lemma iteratePHDRCallback_AddBlock_iff:
  "EvAddBlock cb d sz \<in> set (fst (iteratePHDRCallback p info a)) \<longleftrightarrow>
     dlpi_name info \<noteq> None \<and> dlpi_name info \<noteq> Some [] \<and> cb = addBlock a \<and>
     reported_section p (dlpi_name info) (args_symbolName a) d sz"
  by (auto simp: iteratePHDRCallback_events getSectionInfo_no_AddBlock getSectionInfo_reported
      split: if_splits result.splits)

lemma addBlockInImage_AddBlock_iff:
  "EvAddBlock cb d sz \<in> set (fst (addBlockInImage p a addr)) \<longleftrightarrow>
     cb = addBlock a \<and>
     (if addr = 0 then reported_section p None (args_symbolName a) d sz
      else case dladdr p addr of
             None \<Rightarrow> False
           | Some i \<Rightarrow>
               dli_fname i \<noteq> None \<and>
               reported_section p (dli_fname i) (args_symbolName a) d sz)"
  by (auto simp: addBlockInImage_events getSectionInfo_no_AddBlock getSectionInfo_reported
      split: if_splits result.splits option.splits)

subsection \<open>The enumeration\<close>

lemma dl_iterate_phdr_Cons:
  "dl_iterate_phdr (iteratePHDRCallback p) (info # rest) a =
     (case snd (iteratePHDRCallback p info a) of
        Fatal x \<Rightarrow> (fst (iteratePHDRCallback p info a), Fatal x)
      | Returned r \<Rightarrow>
          (fst (iteratePHDRCallback p info a) @
             fst (dl_iterate_phdr (iteratePHDRCallback p) rest (a\<lparr>didInitializeLookup := True\<rparr>)),
           snd (dl_iterate_phdr (iteratePHDRCallback p) rest (a\<lparr>didInitializeLookup := True\<rparr>))))"
proof (cases "iteratePHDRCallback p info a")
  case (Pair evs r)
  show ?thesis
  proof (cases r)
    case (Returned v)
    with Pair iteratePHDRCallback_result [of p info a]
    have "v = (0, a\<lparr>didInitializeLookup := True\<rparr>)"
      by (auto split: if_splits result.splits)
    with Pair Returned show ?thesis
      by (simp split: prod.splits)
  next
    case (Fatal x)
    with Pair show ?thesis by simp
  qed
qed

declare dl_iterate_phdr.simps(2) [simp del]

lemma enumeration_result:
  "snd (dl_iterate_phdr (iteratePHDRCallback p) infos a) = Returned (rc, a') \<Longrightarrow>
   rc = 0 \<and> a' = (if infos = [] then a else a\<lparr>didInitializeLookup := True\<rparr>)"
proof (induction infos arbitrary: a)
  case Nil
  then show ?case by (simp add: return_run_def)
next
  case (Cons info rest)
  from Cons.prems have
    "snd (dl_iterate_phdr (iteratePHDRCallback p) rest (a\<lparr>didInitializeLookup := True\<rparr>)) =
       Returned (rc, a')"
    by (auto simp: dl_iterate_phdr_Cons split: result.splits)
  from Cons.IH [OF this] show ?case
    by (auto split: if_splits)
qed

lemma enumeration_AddBlock:
  "EvAddBlock cb d sz \<in> set (fst (dl_iterate_phdr (iteratePHDRCallback p) infos a)) \<Longrightarrow>
   cb = addBlock a \<and>
   (\<exists>info\<in>set infos. dlpi_name info \<noteq> None \<and> dlpi_name info \<noteq> Some [] \<and>
      reported_section p (dlpi_name info) (args_symbolName a) d sz)"
proof (induction infos arbitrary: a)
  case Nil
  then show ?case by (simp add: return_run_def)
next
  case (Cons info rest)
  let ?a' = "a\<lparr>didInitializeLookup := True\<rparr>"
  from Cons.prems consider
    (head) "EvAddBlock cb d sz \<in> set (fst (iteratePHDRCallback p info a))"
    | (tail) "EvAddBlock cb d sz \<in> set (fst (dl_iterate_phdr (iteratePHDRCallback p) rest ?a'))"
    by (auto simp: dl_iterate_phdr_Cons split: result.splits)
  then show ?case
  proof cases
    case head
    then show ?thesis
      by (simp add: iteratePHDRCallback_AddBlock_iff)
  next
    case tail
    from Cons.IH [OF tail] show ?thesis by auto
  qed
qed

lemma enumeration_Dlopen_count:
  "count_list (fst (dl_iterate_phdr (iteratePHDRCallback p) infos a)) (EvDlopen n) \<le>
     (if n = None \<or> n = Some [] then 0 else count_list (map dlpi_name infos) n)"
proof (induction infos arbitrary: a)
  case Nil
  show ?case by (simp add: return_run_def)
next
  case (Cons info rest)
  let ?a' = "a\<lparr>didInitializeLookup := True\<rparr>"
  have head: "count_list (fst (iteratePHDRCallback p info a)) (EvDlopen n) =
      (if n = None \<or> n = Some [] then 0 else if dlpi_name info = n then 1 else 0)"
    by (auto simp: iteratePHDRCallback_events getSectionInfo_Dlopen_count
        split: result.splits)
  show ?case
    using Cons.IH [of ?a'] head
    by (auto simp: dl_iterate_phdr_Cons split: result.splits if_splits)
qed

lemma enumeration_Dlopen_count_Returned:
  "snd (dl_iterate_phdr (iteratePHDRCallback p) infos a) = Returned r \<Longrightarrow>
   count_list (fst (dl_iterate_phdr (iteratePHDRCallback p) infos a)) (EvDlopen n) =
     (if n = None \<or> n = Some [] then 0 else count_list (map dlpi_name infos) n)"
proof (induction infos arbitrary: a)
  case Nil
  show ?case by (simp add: return_run_def)
next
  case (Cons info rest)
  let ?a' = "a\<lparr>didInitializeLookup := True\<rparr>"
  have head: "count_list (fst (iteratePHDRCallback p info a)) (EvDlopen n) =
      (if n = None \<or> n = Some [] then 0 else if dlpi_name info = n then 1 else 0)"
    by (auto simp: iteratePHDRCallback_events getSectionInfo_Dlopen_count
        split: result.splits)
  from Cons.prems have
    "snd (dl_iterate_phdr (iteratePHDRCallback p) rest ?a') = Returned r"
    by (auto simp: dl_iterate_phdr_Cons split: result.splits)
  from Cons.IH [OF this] head Cons.prems show ?case
    by (auto simp: dl_iterate_phdr_Cons split: result.splits if_splits)
qed

lemma enumeration_no_Dladdr:
  "EvDladdr x \<notin> set (fst (dl_iterate_phdr (iteratePHDRCallback p) infos a))"
proof (induction infos arbitrary: a)
  case Nil
  show ?case by (simp add: return_run_def)
next
  case (Cons info rest)
  have "EvDladdr x \<notin> set (fst (iteratePHDRCallback p info a))"
    by (auto simp: iteratePHDRCallback_events getSectionInfo_no_Dladdr split: result.splits)
  with Cons.IH [of "a\<lparr>didInitializeLookup := True\<rparr>"] show ?case
    by (auto simp: dl_iterate_phdr_Cons split: result.splits)
qed

lemma addBlockInImage_AddBlock:
  "EvAddBlock cb d sz \<in> set (fst (addBlockInImage p a addr)) \<Longrightarrow>
   cb = addBlock a \<and> (\<exists>fname. reported_section p fname (args_symbolName a) d sz)"
  by (auto simp: addBlockInImage_AddBlock_iff split: if_splits option.splits)



lemma initializeSectionLookup_events:
  "fst (initializeSectionLookup p a) =
     fst (addBlockInImage p a 0) @
       (case snd (addBlockInImage p a 0) of
          Returned u \<Rightarrow> fst (dl_iterate_phdr (iteratePHDRCallback p) (loaded_images p) a)
        | Fatal x \<Rightarrow> [])"
  by (simp add: initializeSectionLookup_def fst_bind_run return_run_def
      split: result.splits prod.splits)

lemma initializeSectionLookup_result:
  "snd (initializeSectionLookup p a) =
     (case snd (addBlockInImage p a 0) of
        Fatal x \<Rightarrow> Fatal x
      | Returned u \<Rightarrow>
          (case snd (dl_iterate_phdr (iteratePHDRCallback p) (loaded_images p) a) of
             Fatal x \<Rightarrow> Fatal x
           | Returned r \<Rightarrow> Returned (snd r)))"
  by (simp add: initializeSectionLookup_def snd_bind_run return_run_def
      split: result.splits prod.splits)

lemma swift_addNewDSOImage_events:
  "fst (swift_addNewDSOImage p g addr) =
     (if didInitializeLookup (ProtocolConformanceArgs g)
      then fst (addBlockInImage p (ProtocolConformanceArgs g) addr) @
        (case snd (addBlockInImage p (ProtocolConformanceArgs g) addr) of
           Returned u \<Rightarrow>
             if didInitializeLookup (TypeMetadataRecordArgs g)
             then fst (addBlockInImage p (TypeMetadataRecordArgs g) addr) else []
         | Fatal x \<Rightarrow> [])
      else if didInitializeLookup (TypeMetadataRecordArgs g)
      then fst (addBlockInImage p (TypeMetadataRecordArgs g) addr) else [])"
  by (simp add: swift_addNewDSOImage_def fst_bind_run return_run_def split: result.splits)



lemma addBlockInImage_null_Dlopen_count:
  "count_list (fst (addBlockInImage p a 0)) (EvDlopen n) = (if n = None then 1 else 0)"
  by (simp add: addBlockInImage_events getSectionInfo_Dlopen_count split: result.splits)

lemma addBlockInImage_null_hd:
  "hd (fst (addBlockInImage p a 0) @ evs) = EvDlopen None"
  by (cases "dlopen p None")
    (simp_all add: addBlockInImage_events getSectionInfo_opened getSectionInfo_failed)

subsection \<open>The small process, run\<close>

lemma demo_getSectionInfo:
  "getSectionInfo demo None ProtocolConformancesSymbol =
     ([EvDlopen None, EvDlsym 11 ProtocolConformancesSymbol, EvDlclose 11],
      Returned \<lparr>size' = 8, data = 0x1008\<rparr>)"
  "getSectionInfo demo (Some ''libFoo.so'') ProtocolConformancesSymbol =
     ([EvDlopen (Some ''libFoo.so''), EvDlsym 12 ProtocolConformancesSymbol, EvDlclose 12],
      Returned \<lparr>size' = 16, data = 0x2008\<rparr>)"
  "getSectionInfo demo (Some ''libEmpty.so'') ProtocolConformancesSymbol =
     ([EvDlopen (Some ''libEmpty.so''), EvDlsym 13 ProtocolConformancesSymbol, EvDlclose 13],
      Returned \<lparr>size' = 0, data = 0x3008\<rparr>)"
  "getSectionInfo demo None TypeMetadataRecordsSymbol =
     ([EvDlopen None, EvDlsym 11 TypeMetadataRecordsSymbol, EvDlclose 11],
      Returned \<lparr>size' = 0, data = 0\<rparr>)"
  "getSectionInfo demo (Some ''libFoo.so'') TypeMetadataRecordsSymbol =
     ([EvDlopen (Some ''libFoo.so''), EvDlsym 12 TypeMetadataRecordsSymbol, EvDlclose 12],
      Returned \<lparr>size' = 0, data = 0\<rparr>)"
  "getSectionInfo demo (Some ''libEmpty.so'') TypeMetadataRecordsSymbol =
     ([EvDlopen (Some ''libEmpty.so''), EvDlsym 13 TypeMetadataRecordsSymbol, EvDlclose 13],
      Returned \<lparr>size' = 0, data = 0\<rparr>)"
  by (simp_all add: getSectionInfo_def Let_def demo_dlopen_def demo_dlsym_def
      demo_prefix_main demo_prefix_libFoo demo_prefix_libEmpty)

lemma demo_registries [simp]:
  "args_symbolName (ProtocolConformanceArgs initial_globals) = ProtocolConformancesSymbol"
  "addBlock (ProtocolConformanceArgs initial_globals) = addImageProtocolConformanceBlockCallback"
  "didInitializeLookup (ProtocolConformanceArgs initial_globals) = False"
  "args_symbolName (TypeMetadataRecordArgs initial_globals) = TypeMetadataRecordsSymbol"
  "addBlock (TypeMetadataRecordArgs initial_globals) = addImageTypeMetadataRecordBlockCallback"
  "didInitializeLookup (TypeMetadataRecordArgs initial_globals) = False"
  "args_symbolName (ProtocolConformanceArgs ready_globals) = ProtocolConformancesSymbol"
  "addBlock (ProtocolConformanceArgs ready_globals) = addImageProtocolConformanceBlockCallback"
  "didInitializeLookup (ProtocolConformanceArgs ready_globals) = True"
  "args_symbolName (TypeMetadataRecordArgs ready_globals) = TypeMetadataRecordsSymbol"
  "addBlock (TypeMetadataRecordArgs ready_globals) = addImageTypeMetadataRecordBlockCallback"
  "didInitializeLookup (TypeMetadataRecordArgs ready_globals) = True"
  by (simp_all add: initial_globals_def ready_globals_def)

lemma demo_initializeSectionLookup:
  "initializeSectionLookup demo (ProtocolConformanceArgs initial_globals) =
     ([EvDlopen None, EvDlsym 11 ProtocolConformancesSymbol, EvDlclose 11,
       EvAddBlock addImageProtocolConformanceBlockCallback 0x1008 8,
       EvDlopen (Some ''libFoo.so''), EvDlsym 12 ProtocolConformancesSymbol, EvDlclose 12,
       EvAddBlock addImageProtocolConformanceBlockCallback 0x2008 16,
       EvDlopen (Some ''libEmpty.so''), EvDlsym 13 ProtocolConformancesSymbol, EvDlclose 13],
      Returned (ProtocolConformanceArgs ready_globals))"
proof -
  have images: "loaded_images demo =
      [\<lparr>dlpi_name = Some []\<rparr>, \<lparr>dlpi_name = Some ''libFoo.so''\<rparr>,
       \<lparr>dlpi_name = None\<rparr>, \<lparr>dlpi_name = Some ''libEmpty.so''\<rparr>]"
    by (simp add: demo_def)
  have same: "(ProtocolConformanceArgs initial_globals)\<lparr>didInitializeLookup := True\<rparr> =
      ProtocolConformanceArgs ready_globals"
    by (simp add: ready_globals_def)
  show ?thesis
    by (simp add: initializeSectionLookup_def addBlockInImage_def images same
        dl_iterate_phdr.simps(2) iteratePHDRCallback_def Let_def demo_getSectionInfo
        emit_def return_run_def)
qed

lemma demo_initialize_type_metadata:
  "snd (initializeSectionLookup demo (TypeMetadataRecordArgs initial_globals)) =
     Returned (TypeMetadataRecordArgs ready_globals)"
proof -
  have images: "loaded_images demo =
      [\<lparr>dlpi_name = Some []\<rparr>, \<lparr>dlpi_name = Some ''libFoo.so''\<rparr>,
       \<lparr>dlpi_name = None\<rparr>, \<lparr>dlpi_name = Some ''libEmpty.so''\<rparr>]"
    by (simp add: demo_def)
  have same: "(TypeMetadataRecordArgs initial_globals)\<lparr>didInitializeLookup := True\<rparr> =
      TypeMetadataRecordArgs ready_globals"
    by (simp add: ready_globals_def)
  show ?thesis
    by (simp add: initializeSectionLookup_def addBlockInImage_def images same
        dl_iterate_phdr.simps(2) iteratePHDRCallback_def Let_def demo_getSectionInfo
        emit_def return_run_def)
qed

lemma demo_swift_addNewDSOImage_libFoo:
  "swift_addNewDSOImage demo ready_globals 0x2010 =
     ([EvDladdr 0x2010,
       EvDlopen (Some ''libFoo.so''), EvDlsym 12 ProtocolConformancesSymbol, EvDlclose 12,
       EvAddBlock addImageProtocolConformanceBlockCallback 0x2008 16,
       EvDladdr 0x2010,
       EvDlopen (Some ''libFoo.so''), EvDlsym 12 TypeMetadataRecordsSymbol, EvDlclose 12],
      Returned ())"
  by (simp add: swift_addNewDSOImage_def addBlockInImage_def Let_def demo_getSectionInfo
      demo_dladdr_def emit_def return_run_def)

subsection \<open>Reporting sections\<close>

lemma demo_prefix_libHuge: "memcpy_u64 demo_ilp32 0x4000 = 0x100000000"
  by (simp add: memcpy_u64_def u64_of_bytes_def demo_memory_def)

text \<open>On a build with 32-bit pointers the size a callback receives is the length
  prefix modulo \<open>2 ^ 32\<close>: the section of \<^verbatim>\<open>libHuge.so\<close>, of length \<open>2 ^ 32\<close>, is
  reported with the size 0.\<close>

lemma demo_ilp32_size_narrowed:
  "fst (iteratePHDRCallback demo_ilp32 \<lparr>dlpi_name = Some ''libHuge.so''\<rparr>
          (ProtocolConformanceArgs initial_globals)) =
     [EvDlopen (Some ''libHuge.so''), EvDlsym 14 ProtocolConformancesSymbol, EvDlclose 14,
      EvAddBlock addImageProtocolConformanceBlockCallback 0x4008 0]"
proof -
  have found: "getSectionInfo demo_ilp32 (Some ''libHuge.so'') ProtocolConformancesSymbol =
      ([EvDlopen (Some ''libHuge.so''), EvDlsym 14 ProtocolConformancesSymbol, EvDlclose 14],
       Returned \<lparr>size' = 0x100000000, data = 0x4008\<rparr>)"
    by (simp add: getSectionInfo_def Let_def demo_dlopen_def demo_dlsym_def demo_prefix_libHuge)
  show ?thesis
    by (simp add: iteratePHDRCallback_events found to_uintptr_def initial_globals_def)
qed

text \<open>
  C7. On both paths a callback is made for an image only when the handle of the image
  opens, the section symbol is found and the length prefix at the symbol is greater
  than zero, and then exactly one, with the address after the prefix and the prefix as
  \<^verbatim>\<open>uintptr_t\<close>: an image that cannot be opened, an absent symbol and a zero prefix give
  no callback. So every callback of the initialization (the main executable and the
  enumeration) and of the load notification stands for a section of length greater
  than zero. The size passed is that length where \<^verbatim>\<open>uintptr_t\<close> has 64 bits, and it is
  then greater than zero.
\<close>

theorem addBlock_only_for_nonempty_section:
  "(EvAddBlock cb d sz \<in> set (fst (iteratePHDRCallback p info a)) \<longleftrightarrow>
      dlpi_name info \<noteq> None \<and> dlpi_name info \<noteq> Some [] \<and> cb = addBlock a \<and>
      reported_section p (dlpi_name info) (args_symbolName a) d sz) \<and>
   (EvAddBlock cb d sz \<in> set (fst (addBlockInImage p a addr)) \<longleftrightarrow>
      cb = addBlock a \<and>
      (if addr = 0 then reported_section p None (args_symbolName a) d sz
       else case dladdr p addr of
              None \<Rightarrow> False
            | Some i \<Rightarrow>
                dli_fname i \<noteq> None \<and>
                reported_section p (dli_fname i) (args_symbolName a) d sz)) \<and>
   (EvAddBlock cb d sz \<in> set (fst (initializeSectionLookup p a)) \<longrightarrow>
      cb = addBlock a \<and>
      (reported_section p None (args_symbolName a) d sz \<or>
       (\<exists>i\<in>set (loaded_images p). dlpi_name i \<noteq> None \<and> dlpi_name i \<noteq> Some [] \<and>
          reported_section p (dlpi_name i) (args_symbolName a) d sz))) \<and>
   (EvAddBlock cb d sz \<in> set (fst (swift_addNewDSOImage p g addr)) \<longrightarrow>
      (\<exists>r fname. (r = ProtocolConformanceArgs g \<or> r = TypeMetadataRecordArgs g) \<and>
         didInitializeLookup r \<and> cb = addBlock r \<and>
         reported_section p fname (args_symbolName r) d sz)) \<and>
   (reported_section p fname sectionName d sz \<longrightarrow>
      (\<exists>h. dlopen p fname = DlOpened h \<and> dlsym p h sectionName \<noteq> 0 \<and>
           0 < memcpy_u64 p (dlsym p h sectionName) \<and>
           d = dlsym p h sectionName + 8 \<and>
           sz = to_uintptr p (memcpy_u64 p (dlsym p h sectionName))) \<and>
      (data_model p = LP64 \<longrightarrow> 0 < sz))"
proof (intro conjI impI)
  show "EvAddBlock cb d sz \<in> set (fst (iteratePHDRCallback p info a)) \<longleftrightarrow>
      dlpi_name info \<noteq> None \<and> dlpi_name info \<noteq> Some [] \<and> cb = addBlock a \<and>
      reported_section p (dlpi_name info) (args_symbolName a) d sz"
    by (rule iteratePHDRCallback_AddBlock_iff)
  show "EvAddBlock cb d sz \<in> set (fst (addBlockInImage p a addr)) \<longleftrightarrow>
      cb = addBlock a \<and>
      (if addr = 0 then reported_section p None (args_symbolName a) d sz
       else case dladdr p addr of
              None \<Rightarrow> False
            | Some i \<Rightarrow>
                dli_fname i \<noteq> None \<and>
                reported_section p (dli_fname i) (args_symbolName a) d sz)"
    by (rule addBlockInImage_AddBlock_iff)
next
  assume "EvAddBlock cb d sz \<in> set (fst (initializeSectionLookup p a))"
  then consider
    (main) "EvAddBlock cb d sz \<in> set (fst (addBlockInImage p a 0))"
    | (listed) "EvAddBlock cb d sz \<in>
        set (fst (dl_iterate_phdr (iteratePHDRCallback p) (loaded_images p) a))"
    by (auto simp: initializeSectionLookup_events split: result.splits)
  then have "cb = addBlock a \<and>
      (reported_section p None (args_symbolName a) d sz \<or>
       (\<exists>i\<in>set (loaded_images p). dlpi_name i \<noteq> None \<and> dlpi_name i \<noteq> Some [] \<and>
          reported_section p (dlpi_name i) (args_symbolName a) d sz))"
  proof cases
    case main
    then show ?thesis
      by (simp add: addBlockInImage_AddBlock_iff)
  next
    case listed
    from enumeration_AddBlock [OF this] show ?thesis
      by blast
  qed
  then show "cb = addBlock a"
    and "reported_section p None (args_symbolName a) d sz \<or>
       (\<exists>i\<in>set (loaded_images p). dlpi_name i \<noteq> None \<and> dlpi_name i \<noteq> Some [] \<and>
          reported_section p (dlpi_name i) (args_symbolName a) d sz)"
    by blast+
next
  assume "EvAddBlock cb d sz \<in> set (fst (swift_addNewDSOImage p g addr))"
  then consider
    (conformances) "didInitializeLookup (ProtocolConformanceArgs g)"
      "EvAddBlock cb d sz \<in> set (fst (addBlockInImage p (ProtocolConformanceArgs g) addr))"
    | (types) "didInitializeLookup (TypeMetadataRecordArgs g)"
      "EvAddBlock cb d sz \<in> set (fst (addBlockInImage p (TypeMetadataRecordArgs g) addr))"
    by (auto simp: swift_addNewDSOImage_events split: if_splits result.splits)
  then show "\<exists>r fname. (r = ProtocolConformanceArgs g \<or> r = TypeMetadataRecordArgs g) \<and>
      didInitializeLookup r \<and> cb = addBlock r \<and>
      reported_section p fname (args_symbolName r) d sz"
  proof cases
    case conformances
    from conformances(1) addBlockInImage_AddBlock [OF conformances(2)] show ?thesis
      by blast
  next
    case types
    from types(1) addBlockInImage_AddBlock [OF types(2)] show ?thesis
      by blast
  qed
next
  assume found: "reported_section p fname sectionName d sz"
  then show "\<exists>h. dlopen p fname = DlOpened h \<and> dlsym p h sectionName \<noteq> 0 \<and>
      0 < memcpy_u64 p (dlsym p h sectionName) \<and>
      d = dlsym p h sectionName + 8 \<and>
      sz = to_uintptr p (memcpy_u64 p (dlsym p h sectionName))"
    by (cases "dlopen p fname") (auto simp: reported_section_def)
  assume "data_model p = LP64"
  with found show "0 < sz"
    by (rule reported_section_LP64)
qed

theorem addBlock_only_for_nonempty_section_witness:
  "EvAddBlock addImageProtocolConformanceBlockCallback 0x2008 16 \<in>
     set (fst (initializeSectionLookup demo (ProtocolConformanceArgs initial_globals))) \<and>
   EvAddBlock addImageProtocolConformanceBlockCallback 0x2008 16 \<in>
     set (fst (swift_addNewDSOImage demo ready_globals 0x2010)) \<and>
   EvAddBlock addImageProtocolConformanceBlockCallback 0x2008 16 \<in>
     set (fst (iteratePHDRCallback demo \<lparr>dlpi_name = Some ''libFoo.so''\<rparr>
                 (ProtocolConformanceArgs initial_globals))) \<and>
   reported_section demo (Some ''libFoo.so'') ProtocolConformancesSymbol 0x2008 16 \<and>
   data_model demo = LP64 \<and> (0::64 word) < 16 \<and>
   \<not> reported_section demo (Some ''libEmpty.so'') ProtocolConformancesSymbol 0x3008 0 \<and>
   EvAddBlock addImageProtocolConformanceBlockCallback 0x3008 0 \<notin>
     set (fst (iteratePHDRCallback demo \<lparr>dlpi_name = Some ''libEmpty.so''\<rparr>
                 (ProtocolConformanceArgs initial_globals)))"
proof -
  let ?a = "ProtocolConformanceArgs initial_globals"
  let ?cb = addImageProtocolConformanceBlockCallback
  have reported:
    "EvAddBlock ?cb 0x2008 16 \<in> set (fst (initializeSectionLookup demo ?a))"
    "EvAddBlock ?cb 0x2008 16 \<in> set (fst (swift_addNewDSOImage demo ready_globals 0x2010))"
    by (simp_all add: demo_initializeSectionLookup demo_swift_addNewDSOImage_libFoo)
  have one: "EvAddBlock ?cb 0x2008 16 \<in>
      set (fst (iteratePHDRCallback demo \<lparr>dlpi_name = Some ''libFoo.so''\<rparr> ?a))"
    by (simp add: iteratePHDRCallback_events demo_getSectionInfo)
  have lp64: "data_model demo = LP64"
    by simp
  have empty:
    "\<not> reported_section demo (Some ''libEmpty.so'') ProtocolConformancesSymbol 0x3008 0"
    by (simp add: reported_section_def demo_dlopen_def demo_dlsym_def demo_prefix_libEmpty)
  note libFoo = addBlock_only_for_nonempty_section
    [of ?cb "0x2008" 16 demo "\<lparr>dlpi_name = Some ''libFoo.so''\<rparr>" ?a "0x2010" ready_globals
      "Some ''libFoo.so''" ProtocolConformancesSymbol]
  note libEmpty = addBlock_only_for_nonempty_section
    [of ?cb "0x3008" 0 demo "\<lparr>dlpi_name = Some ''libEmpty.so''\<rparr>" ?a "0x2010" ready_globals
      "Some ''libEmpty.so''" ProtocolConformancesSymbol]
  from libFoo one
  have found: "reported_section demo (Some ''libFoo.so'') ProtocolConformancesSymbol 0x2008 16"
    by simp
  from libFoo found lp64 have positive: "(0::64 word) < 16"
    by blast
  from libEmpty empty
  have skipped: "EvAddBlock ?cb 0x3008 0 \<notin>
      set (fst (iteratePHDRCallback demo \<lparr>dlpi_name = Some ''libEmpty.so''\<rparr> ?a))"
    by simp
  from reported one found lp64 positive empty skipped show ?thesis
    by blast
qed

subsection \<open>Initialization\<close>

text \<open>
  C6. \<open>initializeSectionLookup\<close> opens the main executable (the null image name)
  exactly once, and it does so first, through \<open>addBlockInImage\<close> with a null address;
  the enumeration never opens a null or an empty name, however many such entries the
  loader lists. Every other image name is opened at most as often as the loader lists
  it, so an image listed once is opened at most once, and exactly once when the
  initialization returns.
\<close>

theorem initializeSectionLookup_visits_once:
  "count_list (fst (initializeSectionLookup p a)) (EvDlopen None) = 1 \<and>
   hd (fst (initializeSectionLookup p a)) = EvDlopen None \<and>
   count_list (fst (initializeSectionLookup p a)) (EvDlopen (Some [])) = 0 \<and>
   count_list (fst (initializeSectionLookup p a)) (EvDlopen (Some n)) \<le>
     count_list (map dlpi_name (loaded_images p)) (Some n) \<and>
   (count_list (map dlpi_name (loaded_images p)) (Some n) \<le> 1 \<longrightarrow>
      count_list (fst (initializeSectionLookup p a)) (EvDlopen (Some n)) \<le> 1) \<and>
   (n \<noteq> [] \<and> (\<exists>a'. snd (initializeSectionLookup p a) = Returned a') \<longrightarrow>
      count_list (fst (initializeSectionLookup p a)) (EvDlopen (Some n)) =
        count_list (map dlpi_name (loaded_images p)) (Some n))"
proof -
  let ?evs = "fst (initializeSectionLookup p a)"
  let ?enum = "dl_iterate_phdr (iteratePHDRCallback p) (loaded_images p) a"
  have main: "count_list ?evs (EvDlopen None) = 1"
    using enumeration_Dlopen_count [of p "loaded_images p" a None]
    by (simp add: initializeSectionLookup_events addBlockInImage_null_Dlopen_count
        split: result.splits)
  have first: "hd ?evs = EvDlopen None"
    by (simp add: initializeSectionLookup_events addBlockInImage_null_hd)
  have empty: "count_list ?evs (EvDlopen (Some [])) = 0"
    using enumeration_Dlopen_count [of p "loaded_images p" a "Some []"]
    by (simp add: initializeSectionLookup_events addBlockInImage_null_Dlopen_count
        split: result.splits)
  have most: "count_list ?evs (EvDlopen (Some n)) \<le>
      count_list (map dlpi_name (loaded_images p)) (Some n)"
    using enumeration_Dlopen_count [of p "loaded_images p" a "Some n"]
    by (simp add: initializeSectionLookup_events addBlockInImage_null_Dlopen_count
        split: result.splits if_splits)
  have exact: "count_list ?evs (EvDlopen (Some n)) =
      count_list (map dlpi_name (loaded_images p)) (Some n)"
    if "n \<noteq> []" and "\<exists>a'. snd (initializeSectionLookup p a) = Returned a'"
  proof -
    from that(2) obtain r where "snd ?enum = Returned r"
      by (auto simp: initializeSectionLookup_result split: result.splits)
    from enumeration_Dlopen_count_Returned [OF this, of "Some n"] that show ?thesis
      by (auto simp: initializeSectionLookup_events initializeSectionLookup_result
          addBlockInImage_null_Dlopen_count split: result.splits)
  qed
  from main first empty most exact show ?thesis
    by auto
qed

theorem initializeSectionLookup_visits_once_witness:
  "count_list (map dlpi_name (loaded_images demo)) (Some ''libFoo.so'') \<le> 1 \<and>
   (\<exists>a'. snd (initializeSectionLookup demo (ProtocolConformanceArgs initial_globals)) =
      Returned a') \<and>
   count_list (fst (initializeSectionLookup demo (ProtocolConformanceArgs initial_globals)))
     (EvDlopen (Some ''libFoo.so'')) = 1 \<and>
   count_list (fst (initializeSectionLookup demo (ProtocolConformanceArgs initial_globals)))
     (EvDlopen None) = 1"
proof -
  have listed: "count_list (map dlpi_name (loaded_images demo)) (Some ''libFoo.so'') = 1"
    by (simp add: demo_def)
  have returned:
    "\<exists>a'. snd (initializeSectionLookup demo (ProtocolConformanceArgs initial_globals)) =
       Returned a'"
    by (simp add: demo_initializeSectionLookup)
  have named: "''libFoo.so'' \<noteq> []"
    by simp
  from initializeSectionLookup_visits_once
    [of demo "ProtocolConformanceArgs initial_globals" "''libFoo.so''"]
    listed returned named
  show ?thesis
    by simp
qed

subsection \<open>The initialized flag\<close>

lemma initializeSectionLookup_flag:
  assumes "snd (initializeSectionLookup p a) = Returned a'"
  shows "(\<exists>rc. snd (dl_iterate_phdr (iteratePHDRCallback p) (loaded_images p) a) =
            Returned (rc, a')) \<and>
         a' = (if loaded_images p = [] then a else a\<lparr>didInitializeLookup := True\<rparr>)"
proof -
  from assms obtain r where
    r: "snd (dl_iterate_phdr (iteratePHDRCallback p) (loaded_images p) a) = Returned r"
    and a': "a' = snd r"
    by (auto simp: initializeSectionLookup_result split: result.splits)
  from r a' have "snd (dl_iterate_phdr (iteratePHDRCallback p) (loaded_images p) a) =
      Returned (fst r, a')"
    by simp
  from this enumeration_result [OF this] show ?thesis
    by blast
qed

lemma perform_result:
  assumes "snd (perform p op g) = Returned g'"
  shows "case op of
           InitializeProtocolConformanceLookup \<Rightarrow>
             \<exists>a'. snd (initializeSectionLookup p (ProtocolConformanceArgs g)) = Returned a' \<and>
                  g' = g\<lparr>ProtocolConformanceArgs := a'\<rparr>
         | InitializeTypeMetadataRecordLookup \<Rightarrow>
             \<exists>a'. snd (initializeSectionLookup p (TypeMetadataRecordArgs g)) = Returned a' \<and>
                  g' = g\<lparr>TypeMetadataRecordArgs := a'\<rparr>
         | AddNewDSOImage addr \<Rightarrow> g' = g"
  using assms
  by (cases op)
    (auto simp: perform_def initializeProtocolConformanceLookup_def
      initializeTypeMetadataRecordLookup_def snd_bind_run return_run_def
      split: result.splits)

lemma perform_monotone:
  assumes "snd (perform p op g) = Returned g'"
  shows "(didInitializeLookup (ProtocolConformanceArgs g) \<longrightarrow>
            didInitializeLookup (ProtocolConformanceArgs g')) \<and>
         (didInitializeLookup (TypeMetadataRecordArgs g) \<longrightarrow>
            didInitializeLookup (TypeMetadataRecordArgs g'))"
  using perform_result [OF assms]
  by (cases op) (auto dest!: initializeSectionLookup_flag split: if_splits)

lemma perform_well_formed:
  assumes "snd (perform p op g) = Returned g'" and "well_formed g"
  shows "well_formed g'"
  using perform_result [OF assms(1)] assms(2)
  by (cases op) (auto simp: well_formed_def dest!: initializeSectionLookup_flag split: if_splits)

lemma perform_all_Cons:
  "snd (perform_all ((p, op) # ops) g) = Returned g'' \<longleftrightarrow>
     (\<exists>g'. snd (perform p op g) = Returned g' \<and> snd (perform_all ops g') = Returned g'')"
  by (cases "perform p op g"; cases "snd (perform p op g)") (auto split: prod.splits)

lemma perform_all_monotone:
  "snd (perform_all ops g) = Returned g' \<Longrightarrow>
   (didInitializeLookup (ProtocolConformanceArgs g) \<longrightarrow>
      didInitializeLookup (ProtocolConformanceArgs g')) \<and>
   (didInitializeLookup (TypeMetadataRecordArgs g) \<longrightarrow>
      didInitializeLookup (TypeMetadataRecordArgs g'))"
proof (induction ops arbitrary: g)
  case Nil
  then show ?case by (simp add: return_run_def)
next
  case (Cons step ops)
  obtain p op where step: "step = (p, op)"
    by (cases step)
  from Cons.prems obtain g1 where
    one: "snd (perform p op g) = Returned g1" and
    more: "snd (perform_all ops g1) = Returned g'"
    unfolding step perform_all_Cons by blast
  from perform_monotone [OF one] Cons.IH [OF more] show ?case
    by blast
qed

text \<open>Every state the entry points can reach from the initial one keeps the symbol
  names and the callbacks of the two registries.\<close>

lemma perform_all_well_formed:
  "snd (perform_all ops g) = Returned g' \<Longrightarrow> well_formed g \<Longrightarrow> well_formed g'"
proof (induction ops arbitrary: g)
  case Nil
  then show ?case by (simp add: return_run_def)
next
  case (Cons step ops)
  obtain p op where step: "step = (p, op)"
    by (cases step)
  from Cons.prems(1) obtain g1 where
    one: "snd (perform p op g) = Returned g1" and
    more: "snd (perform_all ops g1) = Returned g'"
    unfolding step perform_all_Cons by blast
  from perform_well_formed [OF one Cons.prems(2)] Cons.IH [OF more] show ?case
    by blast
qed

lemma reachable_well_formed:
  "snd (perform_all ops initial_globals) = Returned g \<Longrightarrow> well_formed g"
  by (erule perform_all_well_formed) (simp add: well_formed_def initial_globals_def)

text \<open>
  C3. Both flags start false. The callback of the enumeration returns the registry
  with the flag true. \<open>initializeSectionLookup\<close> hands the enumeration the registry as
  it got it and returns the registry as the enumeration left it, so the flag after it
  is the flag before it or true once the callback has run for one loaded image; with
  no image to enumerate it is unchanged. The load notification leaves the registries
  alone, an initialization leaves the other registry alone, and over any sequence of
  entry points a flag that is true stays true.
\<close>

theorem didInitializeLookup_set_in_callback_only:
  "\<not> didInitializeLookup (ProtocolConformanceArgs initial_globals) \<and>
   \<not> didInitializeLookup (TypeMetadataRecordArgs initial_globals) \<and>
   (snd (iteratePHDRCallback p info a) = Returned (rc, a1) \<longrightarrow> didInitializeLookup a1) \<and>
   (snd (initializeSectionLookup p a) = Returned a2 \<longrightarrow>
      (\<exists>rc'. snd (dl_iterate_phdr (iteratePHDRCallback p) (loaded_images p) a) =
         Returned (rc', a2)) \<and>
      didInitializeLookup a2 = (didInitializeLookup a \<or> loaded_images p \<noteq> [])) \<and>
   (snd (perform p (AddNewDSOImage addr) g) = Returned g1 \<longrightarrow> g1 = g) \<and>
   (snd (perform p InitializeProtocolConformanceLookup g) = Returned g2 \<longrightarrow>
      TypeMetadataRecordArgs g2 = TypeMetadataRecordArgs g) \<and>
   (snd (perform p InitializeTypeMetadataRecordLookup g) = Returned g3 \<longrightarrow>
      ProtocolConformanceArgs g3 = ProtocolConformanceArgs g) \<and>
   (snd (perform_all ops g) = Returned g4 \<longrightarrow>
      (didInitializeLookup (ProtocolConformanceArgs g) \<longrightarrow>
         didInitializeLookup (ProtocolConformanceArgs g4)) \<and>
      (didInitializeLookup (TypeMetadataRecordArgs g) \<longrightarrow>
         didInitializeLookup (TypeMetadataRecordArgs g4)))"
proof (intro conjI impI)
  show "\<not> didInitializeLookup (ProtocolConformanceArgs initial_globals)"
    and "\<not> didInitializeLookup (TypeMetadataRecordArgs initial_globals)"
    by (simp_all add: initial_globals_def)
next
  assume "snd (iteratePHDRCallback p info a) = Returned (rc, a1)"
  then show "didInitializeLookup a1"
    by (auto simp: iteratePHDRCallback_result split: if_splits result.splits)
next
  assume init: "snd (initializeSectionLookup p a) = Returned a2"
  from initializeSectionLookup_flag [OF init]
  show "\<exists>rc'. snd (dl_iterate_phdr (iteratePHDRCallback p) (loaded_images p) a) =
      Returned (rc', a2)"
    by blast
  from initializeSectionLookup_flag [OF init]
  show "didInitializeLookup a2 = (didInitializeLookup a \<or> loaded_images p \<noteq> [])"
    by (auto split: if_splits)
next
  assume "snd (perform p (AddNewDSOImage addr) g) = Returned g1"
  from perform_result [OF this] show "g1 = g"
    by simp
next
  assume "snd (perform p InitializeProtocolConformanceLookup g) = Returned g2"
  from perform_result [OF this] show "TypeMetadataRecordArgs g2 = TypeMetadataRecordArgs g"
    by auto
next
  assume "snd (perform p InitializeTypeMetadataRecordLookup g) = Returned g3"
  from perform_result [OF this] show "ProtocolConformanceArgs g3 = ProtocolConformanceArgs g"
    by auto
next
  assume all: "snd (perform_all ops g) = Returned g4"
  {
    assume "didInitializeLookup (ProtocolConformanceArgs g)"
    with perform_all_monotone [OF all]
    show "didInitializeLookup (ProtocolConformanceArgs g4)"
      by blast
  }
  {
    assume "didInitializeLookup (TypeMetadataRecordArgs g)"
    with perform_all_monotone [OF all]
    show "didInitializeLookup (TypeMetadataRecordArgs g4)"
      by blast
  }
qed

theorem didInitializeLookup_set_in_callback_only_witness:
  "snd (iteratePHDRCallback demo \<lparr>dlpi_name = Some ''libFoo.so''\<rparr>
          (ProtocolConformanceArgs initial_globals)) =
     Returned (0, ProtocolConformanceArgs ready_globals) \<and>
   didInitializeLookup (ProtocolConformanceArgs ready_globals) \<and>
   snd (initializeSectionLookup demo (ProtocolConformanceArgs initial_globals)) =
     Returned (ProtocolConformanceArgs ready_globals) \<and>
   loaded_images demo \<noteq> [] \<and>
   snd (perform demo (AddNewDSOImage 0x2010) conformances_ready) = Returned conformances_ready \<and>
   snd (perform demo InitializeTypeMetadataRecordLookup conformances_ready) =
     Returned ready_globals \<and>
   ProtocolConformanceArgs ready_globals = ProtocolConformanceArgs conformances_ready \<and>
   snd (perform_all [(demo, AddNewDSOImage 0x2010), (demo, InitializeTypeMetadataRecordLookup)]
          conformances_ready) = Returned ready_globals \<and>
   didInitializeLookup (ProtocolConformanceArgs conformances_ready)"
proof -
  let ?a = "ProtocolConformanceArgs initial_globals"
  let ?ops = "[(demo, AddNewDSOImage 0x2010), (demo, InitializeTypeMetadataRecordLookup)]"
  have same: "?a\<lparr>didInitializeLookup := True\<rparr> = ProtocolConformanceArgs ready_globals"
    by (simp add: ready_globals_def)
  have callback: "snd (iteratePHDRCallback demo \<lparr>dlpi_name = Some ''libFoo.so''\<rparr> ?a) =
      Returned (0, ProtocolConformanceArgs ready_globals)"
    by (simp add: iteratePHDRCallback_def Let_def same demo_getSectionInfo emit_def return_run_def)
  have init: "snd (initializeSectionLookup demo ?a) =
      Returned (ProtocolConformanceArgs ready_globals)"
    by (simp add: demo_initializeSectionLookup)
  have fields [simp]:
    "ProtocolConformanceArgs conformances_ready = ProtocolConformanceArgs ready_globals"
    "TypeMetadataRecordArgs conformances_ready = TypeMetadataRecordArgs initial_globals"
    by (simp_all add: conformances_ready_def)
  have notified: "swift_addNewDSOImage demo conformances_ready 0x2010 =
      ([EvDladdr 0x2010,
        EvDlopen (Some ''libFoo.so''), EvDlsym 12 ProtocolConformancesSymbol, EvDlclose 12,
        EvAddBlock addImageProtocolConformanceBlockCallback 0x2008 16], Returned ())"
    by (simp add: swift_addNewDSOImage_def addBlockInImage_def Let_def demo_getSectionInfo
        demo_dladdr_def emit_def return_run_def)
  have step1: "snd (perform demo (AddNewDSOImage 0x2010) conformances_ready) =
      Returned conformances_ready"
    by (simp add: perform_def notified return_run_def)
  have become: "conformances_ready\<lparr>TypeMetadataRecordArgs := TypeMetadataRecordArgs ready_globals\<rparr> =
      ready_globals"
    by (simp add: conformances_ready_def ready_globals_def initial_globals_def)
  have step2: "snd (perform demo InitializeTypeMetadataRecordLookup conformances_ready) =
      Returned ready_globals"
    by (simp add: perform_def initializeTypeMetadataRecordLookup_def snd_bind_run
        demo_initialize_type_metadata return_run_def become)
  have both: "snd (perform_all ?ops conformances_ready) = Returned ready_globals"
    using step1 step2
    by (cases "perform demo (AddNewDSOImage 0x2010) conformances_ready";
        cases "perform demo InitializeTypeMetadataRecordLookup conformances_ready")
      (simp add: return_run_def)
  have before: "didInitializeLookup (ProtocolConformanceArgs conformances_ready)"
    by simp
  note facts = didInitializeLookup_set_in_callback_only
    [of demo "\<lparr>dlpi_name = Some ''libFoo.so''\<rparr>" ?a 0 "ProtocolConformanceArgs ready_globals"
      "ProtocolConformanceArgs ready_globals" "0x2010" conformances_ready conformances_ready
      conformances_ready ready_globals ?ops ready_globals]
  from facts callback have set: "didInitializeLookup (ProtocolConformanceArgs ready_globals)"
    by blast
  from facts init have images: "loaded_images demo \<noteq> []"
    by (simp add: initial_globals_def)
  from facts step2 have other:
    "ProtocolConformanceArgs ready_globals = ProtocolConformanceArgs conformances_ready"
    by blast
  from callback set init images step1 step2 other both before show ?thesis
    by blast
qed

subsection \<open>The load notification\<close>






text \<open>
  C5, as the code has it. A null address reaches \<open>addBlockInImage\<close> for every registry
  whose flag is true, and there it means the main executable: no \<^verbatim>\<open>dladdr\<close> is made, the
  registry's section is looked up in the image with the null name, and the callback
  is made when that section's size is greater than zero. Registries whose flag is
  false are skipped, so the call does nothing exactly when no registry is initialized.
\<close>

theorem swift_addNewDSOImage_null_is_main_executable:
  "EvDladdr x \<notin> set (fst (swift_addNewDSOImage p g 0)) \<and>
   addBlockInImage p a 0 =
     bind_run (getSectionInfo p None (args_symbolName a))
       (\<lambda>block. if size' block > 0
                 then emit (EvAddBlock (addBlock a) (data block) (to_uintptr p (size' block)))
                 else return_run ()) \<and>
   swift_addNewDSOImage p g 0 =
     bind_run
       (if didInitializeLookup (ProtocolConformanceArgs g)
        then addBlockInImage p (ProtocolConformanceArgs g) 0 else return_run ())
       (\<lambda>_. if didInitializeLookup (TypeMetadataRecordArgs g)
             then addBlockInImage p (TypeMetadataRecordArgs g) 0 else return_run ()) \<and>
   (\<not> didInitializeLookup (ProtocolConformanceArgs g) \<and>
    \<not> didInitializeLookup (TypeMetadataRecordArgs g) \<longrightarrow>
      swift_addNewDSOImage p g 0 = ([], Returned ())) \<and>
   (didInitializeLookup (ProtocolConformanceArgs g) \<and> dlopen p None = DlOpened h \<and>
    dlsym p h (args_symbolName (ProtocolConformanceArgs g)) \<noteq> 0 \<and>
    0 < memcpy_u64 p (dlsym p h (args_symbolName (ProtocolConformanceArgs g))) \<longrightarrow>
      EvAddBlock (addBlock (ProtocolConformanceArgs g))
        (dlsym p h (args_symbolName (ProtocolConformanceArgs g)) + 8)
        (to_uintptr p (memcpy_u64 p (dlsym p h (args_symbolName (ProtocolConformanceArgs g)))))
      \<in> set (fst (swift_addNewDSOImage p g 0)))"
proof (intro conjI impI)
  show "EvDladdr x \<notin> set (fst (swift_addNewDSOImage p g 0))"
    by (auto simp: swift_addNewDSOImage_events addBlockInImage_events getSectionInfo_no_Dladdr
        split: result.splits if_splits)
  show "addBlockInImage p a 0 =
     bind_run (getSectionInfo p None (args_symbolName a))
       (\<lambda>block. if size' block > 0
                 then emit (EvAddBlock (addBlock a) (data block) (to_uintptr p (size' block)))
                 else return_run ())"
    by (simp add: addBlockInImage_def)
  show "swift_addNewDSOImage p g 0 =
     bind_run
       (if didInitializeLookup (ProtocolConformanceArgs g)
        then addBlockInImage p (ProtocolConformanceArgs g) 0 else return_run ())
       (\<lambda>_. if didInitializeLookup (TypeMetadataRecordArgs g)
             then addBlockInImage p (TypeMetadataRecordArgs g) 0 else return_run ())"
    by (simp add: swift_addNewDSOImage_def)
next
  assume "\<not> didInitializeLookup (ProtocolConformanceArgs g) \<and>
    \<not> didInitializeLookup (TypeMetadataRecordArgs g)"
  then show "swift_addNewDSOImage p g 0 = ([], Returned ())"
    by (simp add: swift_addNewDSOImage_def return_run_def)
next
  let ?a = "ProtocolConformanceArgs g"
  assume "didInitializeLookup ?a \<and> dlopen p None = DlOpened h \<and>
    dlsym p h (args_symbolName ?a) \<noteq> 0 \<and> 0 < memcpy_u64 p (dlsym p h (args_symbolName ?a))"
  then show "EvAddBlock (addBlock ?a) (dlsym p h (args_symbolName ?a) + 8)
      (to_uintptr p (memcpy_u64 p (dlsym p h (args_symbolName ?a))))
    \<in> set (fst (swift_addNewDSOImage p g 0))"
    by (simp add: swift_addNewDSOImage_events addBlockInImage_events getSectionInfo_opened)
qed

theorem swift_addNewDSOImage_null_is_main_executable_witness:
  "didInitializeLookup (ProtocolConformanceArgs ready_globals) \<and>
   dlopen demo None = DlOpened 11 \<and>
   0 < memcpy_u64 demo 0x1000 \<and>
   EvAddBlock addImageProtocolConformanceBlockCallback 0x1008 8 \<in>
     set (fst (swift_addNewDSOImage demo ready_globals 0)) \<and>
   \<not> didInitializeLookup (ProtocolConformanceArgs initial_globals) \<and>
   \<not> didInitializeLookup (TypeMetadataRecordArgs initial_globals) \<and>
   swift_addNewDSOImage demo initial_globals 0 = ([], Returned ())"
proof -
  let ?a = "ProtocolConformanceArgs ready_globals"
  have opened: "dlopen demo None = DlOpened 11"
    by (simp add: demo_dlopen_def)
  have at: "demo_dlsym 11 ProtocolConformancesSymbol = 0x1000"
    by (simp add: demo_dlsym_def)
  have prefix: "0 < memcpy_u64 demo 0x1000"
    by (simp add: demo_prefix_main)
  have main: "didInitializeLookup ?a \<and> dlopen demo None = DlOpened 11 \<and>
      dlsym demo 11 (args_symbolName ?a) \<noteq> 0 \<and>
      0 < memcpy_u64 demo (dlsym demo 11 (args_symbolName ?a))"
    by (simp add: demo_dlopen_def at demo_prefix_main)
  have fresh: "\<not> didInitializeLookup (ProtocolConformanceArgs initial_globals) \<and>
      \<not> didInitializeLookup (TypeMetadataRecordArgs initial_globals)"
    by simp
  note ready = swift_addNewDSOImage_null_is_main_executable [of 0 demo ready_globals ?a 11]
  note initial = swift_addNewDSOImage_null_is_main_executable [of 0 demo initial_globals ?a 11]
  from ready main
  have "EvAddBlock (addBlock ?a) (dlsym demo 11 (args_symbolName ?a) + 8)
      (to_uintptr demo (memcpy_u64 demo (dlsym demo 11 (args_symbolName ?a))))
    \<in> set (fst (swift_addNewDSOImage demo ready_globals 0))"
    by blast
  then have reported: "EvAddBlock addImageProtocolConformanceBlockCallback 0x1008 8 \<in>
      set (fst (swift_addNewDSOImage demo ready_globals 0))"
    by (simp add: at demo_prefix_main)
  from initial fresh
  have noop: "swift_addNewDSOImage demo initial_globals 0 = ([], Returned ())"
    by blast
  from main opened prefix reported fresh noop show ?thesis
    by blast
qed

text \<open>
  C5 as stated fails: with both registries initialized, a null address makes the
  notification open the main executable twice, look both symbols up and report the
  main executable's conformance section.
\<close>

theorem swift_addNewDSOImage_null_counterexample:
  "swift_addNewDSOImage demo ready_globals 0 =
     ([EvDlopen None, EvDlsym 11 ProtocolConformancesSymbol, EvDlclose 11,
       EvAddBlock addImageProtocolConformanceBlockCallback 0x1008 8,
       EvDlopen None, EvDlsym 11 TypeMetadataRecordsSymbol, EvDlclose 11],
      Returned ())"
  by (simp add: swift_addNewDSOImage_def addBlockInImage_def Let_def demo_getSectionInfo
      emit_def return_run_def)

end
